theory Spec2Isabelle
  imports Main "HOL-Library.Char_ord" "HOL-Library.List_Lexorder"
begin

section \<open>Python values and strings\<close>

text \<open>
  The converter of \<^verbatim>\<open>app.py\<close> reads an uploaded file into a list of pandas
  DataFrames (\<^verbatim>\<open>read_file\<close>) and writes that list in one of four output formats
  (\<^verbatim>\<open>df_to_bytes\<close>). A Python string is modelled as a \<^typ>\<open>string\<close> whose
  characters are the code points below 256.

  Exceptions are values: every function that can raise returns \<open>pyerr + 'a\<close>;
  \<open>LibraryError\<close> stands for whatever a library reader raises on a file it rejects.
  \<open>OutsideModel\<close> is not an exception: it is the result of a decoder on an input for
  which the model of a library function does not say what the library returns.
\<close>

datatype pyerr = IndexError | ValueError | LibraryError | OutsideModel

text \<open>
  A column label is a Python string or, for a frame built without a header, an integer
  position. A cell holds a scalar: \<open>None\<close>, the float \<open>nan\<close> (the missing-value
  marker of pandas), a string, an integer, a boolean, or any other float, which is
  identified by the text that \<^verbatim>\<open>repr\<close> prints for it.
\<close>

datatype label = LStr string | LInt int

datatype cell = CNone | CNaN | CStr string | CInt int | CBool bool | CFloat string

record dataframe =
  columns :: "label list"
  rows :: "cell list list"

definition is_int_cell :: "cell \<Rightarrow> bool" where
  "is_int_cell v = (case v of CInt i \<Rightarrow> True | _ \<Rightarrow> False)"

definition is_str_cell :: "cell \<Rightarrow> bool" where
  "is_str_cell v = (case v of CStr s \<Rightarrow> True | _ \<Rightarrow> False)"

definition is_bool_cell :: "cell \<Rightarrow> bool" where
  "is_bool_cell v = (case v of CBool b \<Rightarrow> True | _ \<Rightarrow> False)"

text \<open>The column at position \<open>j\<close> of a list of rows.\<close>

definition column_at :: "'a list list \<Rightarrow> nat \<Rightarrow> 'a list" where
  "column_at rs j = map (\<lambda>r. r ! j) rs"

text \<open>
  A column that holds a string and \<open>None\<close>: pandas keeps the \<open>None\<close> up to version
  2 and turns it into \<open>nan\<close> from version 3 on, so the models of the DataFrame
  constructors below say nothing of such a column.
\<close>

definition none_among_strings :: "cell list \<Rightarrow> bool" where
  "none_among_strings col = (list_ex is_str_cell col \<and> list_ex (\<lambda>v. v = CNone) col)"

subsection \<open>Decimal rendering of integers\<close>

definition digit_char :: "nat \<Rightarrow> char" where
  "digit_char d = char_of (48 + d)"

function show_nat :: "nat \<Rightarrow> string" where
  "show_nat n =
     (if n < 10 then [digit_char n] else show_nat (n div 10) @ [digit_char (n mod 10)])"
  by pat_completeness auto
termination
  by (relation "measure id") auto

declare show_nat.simps [simp del]

definition show_int :: "int \<Rightarrow> string" where
  "show_int i = (if i < 0 then CHR ''-'' # show_nat (nat (- i)) else show_nat (nat i))"

subsection \<open>\<^verbatim>\<open>str\<close>, \<^verbatim>\<open>str.strip\<close>, \<^verbatim>\<open>str.lower\<close>, \<^verbatim>\<open>str.startswith\<close>\<close>

definition py_str :: "cell \<Rightarrow> string" where
  "py_str v =
     (case v of
        CNone \<Rightarrow> ''None''
      | CNaN \<Rightarrow> ''nan''
      | CStr s \<Rightarrow> s
      | CInt i \<Rightarrow> show_int i
      | CBool b \<Rightarrow> (if b then ''True'' else ''False'')
      | CFloat r \<Rightarrow> r)"

definition str_label :: "label \<Rightarrow> string" where
  "str_label k = (case k of LStr s \<Rightarrow> s | LInt i \<Rightarrow> show_int i)"

text \<open>
  The characters \<^verbatim>\<open>str.isspace\<close> accepts among the code points below 256: tab to
  carriage return, the four separators 28 to 31, the space, NEL (133) and the no-break
  space (160).
\<close>

definition isspace :: "char \<Rightarrow> bool" where
  "isspace c =
     (let n = (of_char c :: nat)
      in (9 \<le> n \<and> n \<le> 13) \<or> (28 \<le> n \<and> n \<le> 32) \<or> n = 133 \<or> n = 160)"

definition strip :: "string \<Rightarrow> string" where
  "strip s = rev (dropWhile isspace (rev (dropWhile isspace s)))"

definition lower_char :: "char \<Rightarrow> char" where
  "lower_char c =
     (let n = (of_char c :: nat)
      in if (65 \<le> n \<and> n \<le> 90) \<or> (192 \<le> n \<and> n \<le> 222 \<and> n \<noteq> 215)
         then char_of (n + 32) else c)"

definition lower :: "string \<Rightarrow> string" where
  "lower s = map lower_char s"

definition startswith :: "string \<Rightarrow> string \<Rightarrow> bool" where
  "startswith s p = (take (length p) s = p)"

subsection \<open>Dictionaries\<close>

text \<open>
  A Python \<^verbatim>\<open>dict\<close> keeps its keys in insertion order; storing under a key that is
  already present replaces the value and leaves the key where it was.
\<close>

fun dict_set :: "('k \<times> 'v) list \<Rightarrow> 'k \<Rightarrow> 'v \<Rightarrow> ('k \<times> 'v) list" where
  "dict_set [] k v = [(k, v)]"
| "dict_set ((k', v') # d) k v =
     (if k' = k then (k', v) # d else (k', v') # dict_set d k v)"

definition dict_of_items :: "('k \<times> 'v) list \<Rightarrow> ('k \<times> 'v) list" where
  "dict_of_items kvs = foldl (\<lambda>d kv. dict_set d (fst kv) (snd kv)) [] kvs"

text \<open>
  \<^verbatim>\<open>df.to_dict(orient="records")\<close>: one dict per row, keyed by the column labels; a
  DataFrame without columns gives no record, whatever the number of its rows.
\<close>

definition to_dict_records :: "dataframe \<Rightarrow> (label \<times> cell) list list" where
  "to_dict_records df =
     (if columns df = [] then [] else map (\<lambda>r. dict_of_items (zip (columns df) r)) (rows df))"

section \<open>The encoders: \<^verbatim>\<open>df_to_bytes\<close>\<close>

text \<open>
  Each branch of \<^verbatim>\<open>df_to_bytes\<close> hands a document to a library serialiser
  (\<^verbatim>\<open>csv.writer\<close> under \<^verbatim>\<open>DataFrame.to_csv\<close>, openpyxl under
  \<^verbatim>\<open>pd.ExcelWriter\<close>, \<^verbatim>\<open>json.dumps\<close>, \<^verbatim>\<open>ET.tostring\<close>). The payload is
  represented by that document: the records of fields of the delimited text, the sheets of
  the workbook, the value given to \<^verbatim>\<open>json.dumps\<close>, the element tree given to
  \<^verbatim>\<open>ET.tostring\<close>.
\<close>

datatype element =
  Element (el_tag: string) (el_attrib: "(string \<times> string) list")
    (el_text: "string option") (el_children: "element list")

text \<open>
  \<open>iter\<close> is \<^verbatim>\<open>Element.iter()\<close>: the element and all its descendants in document
  order.
\<close>

fun iter :: "element \<Rightarrow> element list" where
  "iter (Element t a x cs) = Element t a x cs # concat (map iter cs)"

text \<open>
  \<^verbatim>\<open>ET.tostring\<close> computes a qualified name for every tag of the tree: a tag that starts
  with a brace is split at its last closing brace, and the split raises \<open>ValueError\<close>
  when the rest of the tag has none.
\<close>

definition qname_ok :: "string \<Rightarrow> bool" where
  "qname_ok tag = (\<not> (take 1 tag = ''{'' \<and> CHR ''}'' \<notin> set (drop 1 tag)))"

definition ET_tostring :: "element \<Rightarrow> pyerr + element" where
  "ET_tostring root =
     (if list_all (\<lambda>e. qname_ok (el_tag e)) (iter root) then Inr root else Inl ValueError)"

datatype jsondoc =
  JRecords "(label \<times> cell) list list"
| JTables "(label \<times> cell) list list list"

text \<open>
  openpyxl stamps the workbook it saves with the current time (the \<^verbatim>\<open>created\<close> and
  \<^verbatim>\<open>modified\<close> properties of \<^verbatim>\<open>docProps/core.xml\<close>, and the modification time of
  every member of the zip archive), so the bytes of a workbook are a function of the sheets
  and of the clock reading at the time of the call; \<open>XlsxDoc t sheets\<close> is the workbook
  saved at clock reading \<open>t\<close>.
\<close>

datatype payload =
  CsvDoc "string list list"
| XlsxDoc nat "(string \<times> dataframe) list"
| JsonDoc jsondoc
| XmlDoc element

text \<open>
  \<^verbatim>\<open>df.to_csv(buf, index=False)\<close>: the header record, then one record per row. A missing
  value (\<open>None\<close> or \<open>nan\<close>) is written as the empty field (\<^verbatim>\<open>na_rep=''\<close>).
\<close>

definition csv_field :: "cell \<Rightarrow> string" where
  "csv_field v =
     (case v of
        CNone \<Rightarrow> ''''
      | CNaN \<Rightarrow> ''''
      | CStr s \<Rightarrow> s
      | CInt i \<Rightarrow> show_int i
      | CBool b \<Rightarrow> (if b then ''True'' else ''False'')
      | CFloat r \<Rightarrow> r)"

definition to_csv :: "dataframe \<Rightarrow> string list list" where
  "to_csv df = map str_label (columns df) # map (map csv_field) (rows df)"

text \<open>
  The markup branch, lines 138 to 149:
  \<^verbatim>\<open>
      tag = k if isinstance(k, str) and k.strip() else "field"
      cell = ET.SubElement(row_el, tag)
      cell.text = "" if v is None else str(v)
  \<close>
\<close>

definition xml_tag :: "label \<Rightarrow> string" where
  "xml_tag k = (case k of LStr s \<Rightarrow> (if strip s \<noteq> [] then s else ''field'') | LInt i \<Rightarrow> ''field'')"

definition xml_cell :: "label \<times> cell \<Rightarrow> element" where
  "xml_cell kv =
     Element (xml_tag (fst kv)) [] (Some (if snd kv = CNone then '''' else py_str (snd kv))) []"

definition xml_row :: "(label \<times> cell) list \<Rightarrow> element" where
  "xml_row row = Element ''row'' [] None (map xml_cell row)"

definition sheet_name :: "nat \<Rightarrow> string" where
  "sheet_name i = ''Sheet'' @ show_nat i"

definition xml_sheet :: "nat \<times> dataframe \<Rightarrow> element" where
  "xml_sheet p =
     Element ''sheet'' [(''name'', sheet_name (fst p))] None
       (map xml_row (to_dict_records (snd p)))"

definition xlsx_sheet :: "nat \<times> dataframe \<Rightarrow> string \<times> dataframe" where
  "xlsx_sheet p = (sheet_name (fst p), snd p)"

text \<open>
  \<^verbatim>\<open>df_to_bytes(dfs, output)\<close>. The first argument is the clock reading at the time of
  the call, which only the workbook branch uses. \<^verbatim>\<open>dfs[0]\<close> raises \<open>IndexError\<close> on the
  empty list, and openpyxl refuses to save a workbook without a sheet; what else openpyxl
  may refuse in the cells of a sheet is not represented. The markup branch raises what
  \<^verbatim>\<open>ET.tostring\<close> raises.
\<close>

definition df_to_bytes :: "nat \<Rightarrow> dataframe list \<Rightarrow> string \<Rightarrow> pyerr + (payload \<times> string)" where
  "df_to_bytes now dfs output0 =
     (let output = lower output0 in
      if output = ''csv'' then
        (case dfs of
           [] \<Rightarrow> Inl IndexError
         | df # _ \<Rightarrow> Inr (CsvDoc (to_csv df), ''text/csv''))
      else if startswith output ''excel'' then
        (if dfs = [] then Inl IndexError
         else Inr (XlsxDoc now (map xlsx_sheet (List.enumerate 1 dfs)),
                   ''application/vnd.openxmlformats-officedocument.spreadsheetml.sheet''))
      else if output = ''json'' then
        (let data = map to_dict_records dfs
         in Inr (JsonDoc (if length data = 1 then JRecords (hd data) else JTables data),
                 ''application/json''))
      else if output = ''xml'' then
        (case ET_tostring (Element ''dataset'' [] None (map xml_sheet (List.enumerate 1 dfs))) of
           Inl e \<Rightarrow> Inl e
         | Inr xml_bytes \<Rightarrow> Inr (XmlDoc xml_bytes, ''application/xml''))
      else Inl ValueError)"

section \<open>The decoders\<close>

subsection \<open>DataFrames built from Python data\<close>

text \<open>
  The keys of a list of dicts in the order in which they are first seen: the columns
  \<^verbatim>\<open>pd.DataFrame(list_of_dicts)\<close> creates.
\<close>

fun first_seen :: "'a list \<Rightarrow> 'a list \<Rightarrow> 'a list" where
  "first_seen seen [] = []"
| "first_seen seen (x # xs) =
     (if x \<in> set seen then first_seen seen xs else x # first_seen (x # seen) xs)"

definition union_keys :: "('k \<times> 'v) list list \<Rightarrow> 'k list" where
  "union_keys ds = first_seen [] (concat (map (map fst) ds))"

text \<open>
  \<^verbatim>\<open>pd.DataFrame(rows, columns=cols)\<close> for a list of dicts whose values are strings: one
  row per dict, the cell of a column that the dict lacks is the missing value \<open>nan\<close>.
\<close>

definition str_cell :: "(string \<times> string) list \<Rightarrow> string \<Rightarrow> cell" where
  "str_cell d c = (case map_of d c of None \<Rightarrow> CNaN | Some s \<Rightarrow> CStr s)"

definition DataFrame_dicts :: "(string \<times> string) list list \<Rightarrow> string list \<Rightarrow> dataframe" where
  "DataFrame_dicts ds cols =
     \<lparr>columns = map LStr cols, rows = map (\<lambda>d. map (str_cell d) cols) ds\<rparr>"

text \<open>
  \<^verbatim>\<open>pd.DataFrame(rows, columns=header)\<close> and \<^verbatim>\<open>pd.DataFrame(rows)\<close> for a list of
  lists whose entries are strings or \<open>None\<close>: the width of the data is the length of its
  longest row, shorter rows are filled with \<open>None\<close>; a header of another length is a
  \<open>ValueError\<close>, and without a header the columns are labelled by position. The result
  is \<open>Inl OutsideModel\<close> when a column holds a string and \<open>None\<close>.
\<close>

definition opt_cell :: "string option \<Rightarrow> cell" where
  "opt_cell x = (case x of None \<Rightarrow> CNone | Some s \<Rightarrow> CStr s)"

definition width :: "'a list list \<Rightarrow> nat" where
  "width rs = foldr (\<lambda>r m. max (length r) m) rs 0"

definition pad_row :: "nat \<Rightarrow> string option list \<Rightarrow> cell list" where
  "pad_row k r = map opt_cell r @ replicate (k - length r) CNone"

definition frame_of_rows :: "label list \<Rightarrow> cell list list \<Rightarrow> pyerr + dataframe" where
  "frame_of_rows labels rs =
     (if list_ex (\<lambda>j. none_among_strings (column_at rs j)) [0..<length labels]
      then Inl OutsideModel
      else Inr \<lparr>columns = labels, rows = rs\<rparr>)"

definition DataFrame_lists_header ::
  "string option list list \<Rightarrow> string list \<Rightarrow> pyerr + dataframe" where
  "DataFrame_lists_header rs header =
     (if rs = [] then Inr \<lparr>columns = map LStr header, rows = []\<rparr>
      else if width rs = length header
        then frame_of_rows (map LStr header) (map (pad_row (width rs)) rs)
      else Inl ValueError)"

definition DataFrame_lists :: "string option list list \<Rightarrow> pyerr + dataframe" where
  "DataFrame_lists rs =
     frame_of_rows (map (\<lambda>i. LInt (int i)) [0..<width rs]) (map (pad_row (width rs)) rs)"

subsection \<open>Markup: \<^verbatim>\<open>_read_xml\<close>\<close>

text \<open>\<open>text_or_empty\<close> is \<^verbatim>\<open>(k.text or "")\<close>.\<close>

definition text_or_empty :: "element \<Rightarrow> string" where
  "text_or_empty e = (case el_text e of None \<Rightarrow> '''' | Some s \<Rightarrow> s)"

text \<open>
  Line 71, \<^verbatim>\<open>len(list(child)) and all(len(list(c)) == 0 for c in child)\<close>, and line 72,
  \<^verbatim>\<open>{k.tag: (k.text or "").strip() for k in child}\<close>.
\<close>

definition is_leaf_parent :: "element \<Rightarrow> bool" where
  "is_leaf_parent e =
     (el_children e \<noteq> [] \<and> list_all (\<lambda>c. el_children c = []) (el_children e))"

definition leaf_row :: "element \<Rightarrow> (string \<times> string) list" where
  "leaf_row e = dict_of_items (map (\<lambda>k. (el_tag k, strip (text_or_empty k))) (el_children e))"

text \<open>
  Line 80, \<^verbatim>\<open>{"tag": elem.tag, "text": (elem.text or "").strip(), **elem.attrib}\<close>.
\<close>

definition flat_row :: "element \<Rightarrow> (string \<times> string) list" where
  "flat_row e =
     dict_of_items ([(''tag'', el_tag e), (''text'', strip (text_or_empty e))] @ el_attrib e)"

text \<open>
  The fallback of \<^verbatim>\<open>_read_xml\<close> on a parsed tree (lines 67 to 82). \<^verbatim>\<open>sorted(columns)\<close>
  sorts the set of the tags by code points.
\<close>

definition xml_fallback :: "element \<Rightarrow> dataframe" where
  "xml_fallback root =
     (let rows = map leaf_row (filter is_leaf_parent (iter root));
          columns = remdups (concat (map (map fst) rows))
      in if rows \<noteq> [] then DataFrame_dicts rows (sort columns)
         else (let flat = map flat_row (iter root)
               in DataFrame_dicts flat (union_keys flat)))"

text \<open>
  \<^verbatim>\<open>_read_xml(file)\<close>. The two library readers are parameters: \<^verbatim>\<open>pd.read_xml\<close> and
  \<^verbatim>\<open>ET.parse\<close> followed by \<^verbatim>\<open>getroot\<close>. \<^verbatim>\<open>pd.read_xml\<close> returns a DataFrame or
  raises, and when it raises it may have closed the file: then \<^verbatim>\<open>file.seek(0)\<close> on line
  65 raises \<open>ValueError\<close>. That exception and the one of \<^verbatim>\<open>ET.parse\<close> are not caught.
\<close>

datatype xml_read = Frame dataframe | Raised | RaisedClosed

definition read_xml ::
  "(string \<Rightarrow> xml_read) \<Rightarrow> (string \<Rightarrow> pyerr + element) \<Rightarrow> string \<Rightarrow>
   pyerr + dataframe list" where
  "read_xml pd_read_xml ET_parse file =
     (case pd_read_xml file of
        Frame df \<Rightarrow> Inr [df]
      | RaisedClosed \<Rightarrow> Inl ValueError
      | Raised \<Rightarrow>
          (case ET_parse file of
             Inl e \<Rightarrow> Inl e
           | Inr root \<Rightarrow> Inr [xml_fallback root]))"

subsection \<open>Page-layout documents: \<^verbatim>\<open>_read_pdf\<close>\<close>

text \<open>
  A page as pdfplumber presents it: the grids \<^verbatim>\<open>extract_tables()\<close> returns, whose cells
  are strings or \<open>None\<close>, and the result of \<^verbatim>\<open>extract_text()\<close>.
\<close>

record page =
  extract_tables :: "string option list list list"
  extract_text :: "string option"

text \<open>Lines 93 to 100: the DataFrame of one grid, \<open>None\<close> for a grid that is skipped.\<close>

definition grid_frame :: "string option list list \<Rightarrow> (pyerr + dataframe) option" where
  "grid_frame t =
     (case t of
        [] \<Rightarrow> None
      | first # rest \<Rightarrow>
          Some (if list_all (\<lambda>x. x \<noteq> None) first
                then DataFrame_lists_header rest (map the first)
                else DataFrame_lists t))"

text \<open>The loops of lines 90 to 101; the first exception ends them.\<close>

fun collect_frames :: "string option list list list \<Rightarrow> pyerr + dataframe list" where
  "collect_frames [] = Inr []"
| "collect_frames (t # ts) =
     (case grid_frame t of
        None \<Rightarrow> collect_frames ts
      | Some (Inl e) \<Rightarrow> Inl e
      | Some (Inr df) \<Rightarrow>
          (case collect_frames ts of Inl e \<Rightarrow> Inl e | Inr dfs \<Rightarrow> Inr (df # dfs)))"

definition page_text :: "page \<Rightarrow> cell list" where
  "page_text p = [CStr (case extract_text p of None \<Rightarrow> '''' | Some s \<Rightarrow> s)]"

text \<open>
  \<^verbatim>\<open>_read_pdf(file)\<close>. \<open>HAS_PDF\<close> tells whether pdfplumber could be imported,
  \<open>pdfplumber_open\<close> gives the pages of the document or raises. Without pdfplumber the
  result is the first 2000 bytes of the file, decoded as Latin-1.
\<close>

definition read_pdf ::
  "bool \<Rightarrow> (string \<Rightarrow> pyerr + page list) \<Rightarrow> string \<Rightarrow> pyerr + dataframe list" where
  "read_pdf HAS_PDF pdfplumber_open file =
     (if \<not> HAS_PDF then Inr [\<lparr>columns = [LStr ''text''], rows = [[CStr (take 2000 file)]]\<rparr>]
      else
        (case pdfplumber_open file of
           Inl e \<Rightarrow> Inl e
         | Inr pages \<Rightarrow>
             (case collect_frames (concat (map extract_tables (take 5 pages))) of
                Inl e \<Rightarrow> Inl e
              | Inr dfs \<Rightarrow>
                  (if dfs = []
                   then Inr [\<lparr>columns = [LStr ''text''], rows = map page_text (take 3 pages)\<rparr>]
                   else Inr dfs))))"

subsection \<open>Structured text: \<^verbatim>\<open>json.loads\<close>\<close>

text \<open>
  The values \<^verbatim>\<open>json.loads\<close> returns. An object is a Python \<^verbatim>\<open>dict\<close>: its keys are
  distinct and in the order of their first occurrence in the text. A float is identified by
  the text that \<^verbatim>\<open>repr\<close> prints for it, as in a cell.
\<close>

datatype json =
  JNull | JBool bool | JInt int | JFloat string | JStr string
| JList "json list" | JDict "(string \<times> json) list"

text \<open>
  The model of \<^verbatim>\<open>json.loads\<close> covers the documents of ASCII characters whose numbers are
  integers and whose strings have no \<^verbatim>\<open>\u\<close> escape. Its result is the value parsed,
  \<open>Invalid\<close> where \<^verbatim>\<open>json.loads\<close> raises, or \<open>Unmodelled\<close> for a document outside
  that fragment (a float, \<^verbatim>\<open>NaN\<close>, \<^verbatim>\<open>Infinity\<close>, a \<^verbatim>\<open>\u\<close> escape, an integer of
  more than 4300 digits, a nesting deeper than 100 levels), about which the model says
  nothing.
\<close>

datatype 'a parse = Parsed 'a | Invalid | Unmodelled

datatype token =
  TLBrace | TRBrace | TLBrack | TRBrack | TComma | TColon
| TStr string | TInt int | TTrue | TFalse | TNull

definition is_digit :: "char \<Rightarrow> bool" where
  "is_digit c = (let n = (of_char c :: nat) in 48 \<le> n \<and> n \<le> 57)"

definition nat_of_digits :: "string \<Rightarrow> nat" where
  "nat_of_digits ds = foldl (\<lambda>n c. 10 * n + (of_char c - 48)) 0 ds"

definition unescape :: "char \<Rightarrow> char option" where
  "unescape e =
     (if e = CHR 0x22 then Some (CHR 0x22)
      else if e = CHR 0x5C then Some (CHR 0x5C)
      else if e = CHR ''/'' then Some (CHR ''/'')
      else if e = CHR ''b'' then Some (CHR 0x08)
      else if e = CHR ''f'' then Some (CHR 0x0C)
      else if e = CHR ''n'' then Some (CHR 0x0A)
      else if e = CHR ''r'' then Some (CHR 0x0D)
      else if e = CHR ''t'' then Some (CHR 0x09)
      else None)"

text \<open>The rest of a string literal after its opening quote.\<close>

fun lex_string :: "string \<Rightarrow> string \<Rightarrow> (string \<times> string) parse" where
  "lex_string acc [] = Invalid"
| "lex_string acc [c] = (if c = CHR 0x22 then Parsed (rev acc, []) else Invalid)"
| "lex_string acc (c # e # cs) =
     (if c = CHR 0x22 then Parsed (rev acc, e # cs)
      else if c = CHR 0x5C then
        (if e = CHR ''u'' then Unmodelled
         else case unescape e of None \<Rightarrow> Invalid | Some x \<Rightarrow> lex_string (x # acc) cs)
      else if (of_char c :: nat) < 32 then Invalid
      else lex_string (c # acc) (e # cs))"

text \<open>
  A number: an optional minus sign and the digits of an integer without a leading zero;
  a fraction or an exponent makes it a float.
\<close>

definition lex_number :: "string \<Rightarrow> (int \<times> string) parse" where
  "lex_number s =
     (let neg = (take 1 s = ''-'');
          body = (if neg then drop 1 s else s);
          ds = takeWhile is_digit body;
          rest = dropWhile is_digit body
      in if ds = [] then (if take 8 body = ''Infinity'' then Unmodelled else Invalid)
         else if 1 < length ds \<and> hd ds = CHR ''0'' then Invalid
         else if take 1 rest = ''.'' \<or> take 1 rest = ''e'' \<or> take 1 rest = ''E'' then Unmodelled
         else if 4300 < length ds then Unmodelled
         else Parsed (if neg then - int (nat_of_digits ds) else int (nat_of_digits ds), rest))"

definition cons_token :: "token \<Rightarrow> token list parse \<Rightarrow> token list parse" where
  "cons_token t r = (case r of Parsed ts \<Rightarrow> Parsed (t # ts) | Invalid \<Rightarrow> Invalid | Unmodelled \<Rightarrow> Unmodelled)"

text \<open>
  The tokens of a document. The first argument bounds the number of steps; the length of
  the text is enough, since every step consumes a character.
\<close>

fun lex :: "nat \<Rightarrow> string \<Rightarrow> token list parse" where
  "lex n [] = Parsed []"
| "lex 0 (c # cs) = Unmodelled"
| "lex (Suc n) (c # cs) =
     (if c = CHR '' '' \<or> c = CHR 0x09 \<or> c = CHR 0x0A \<or> c = CHR 0x0D then lex n cs
      else if c = CHR ''{'' then cons_token TLBrace (lex n cs)
      else if c = CHR ''}'' then cons_token TRBrace (lex n cs)
      else if c = CHR ''['' then cons_token TLBrack (lex n cs)
      else if c = CHR '']'' then cons_token TRBrack (lex n cs)
      else if c = CHR '','' then cons_token TComma (lex n cs)
      else if c = CHR '':'' then cons_token TColon (lex n cs)
      else if c = CHR 0x22 then
        (case lex_string [] cs of
           Parsed (s, rest) \<Rightarrow> cons_token (TStr s) (lex n rest)
         | Invalid \<Rightarrow> Invalid
         | Unmodelled \<Rightarrow> Unmodelled)
      else if c = CHR ''-'' \<or> is_digit c then
        (case lex_number (c # cs) of
           Parsed (i, rest) \<Rightarrow> cons_token (TInt i) (lex n rest)
         | Invalid \<Rightarrow> Invalid
         | Unmodelled \<Rightarrow> Unmodelled)
      else if take 4 (c # cs) = ''true'' then cons_token TTrue (lex n (drop 3 cs))
      else if take 5 (c # cs) = ''false'' then cons_token TFalse (lex n (drop 4 cs))
      else if take 4 (c # cs) = ''null'' then cons_token TNull (lex n (drop 3 cs))
      else if take 3 (c # cs) = ''NaN'' \<or> take 8 (c # cs) = ''Infinity'' then Unmodelled
      else Invalid)"

text \<open>
  The value at the head of a list of tokens, and the tokens after it. The first argument
  bounds the depth of the calls; twice the number of tokens, and two, is enough.
\<close>

fun parse_value :: "nat \<Rightarrow> token list \<Rightarrow> (json \<times> token list) parse"
  and parse_elements :: "nat \<Rightarrow> json list \<Rightarrow> token list \<Rightarrow> (json \<times> token list) parse"
  and parse_members ::
    "nat \<Rightarrow> (string \<times> json) list \<Rightarrow> token list \<Rightarrow> (json \<times> token list) parse"
where
  "parse_value 0 ts = Unmodelled"
| "parse_value (Suc n) ts =
     (case ts of
        TNull # r \<Rightarrow> Parsed (JNull, r)
      | TTrue # r \<Rightarrow> Parsed (JBool True, r)
      | TFalse # r \<Rightarrow> Parsed (JBool False, r)
      | TInt i # r \<Rightarrow> Parsed (JInt i, r)
      | TStr s # r \<Rightarrow> Parsed (JStr s, r)
      | TLBrack # TRBrack # r \<Rightarrow> Parsed (JList [], r)
      | TLBrack # r \<Rightarrow> parse_elements n [] r
      | TLBrace # TRBrace # r \<Rightarrow> Parsed (JDict [], r)
      | TLBrace # r \<Rightarrow> parse_members n [] r
      | _ \<Rightarrow> Invalid)"
| "parse_elements 0 acc ts = Unmodelled"
| "parse_elements (Suc n) acc ts =
     (case parse_value n ts of
        Parsed (v, TComma # r) \<Rightarrow> parse_elements n (acc @ [v]) r
      | Parsed (v, TRBrack # r) \<Rightarrow> Parsed (JList (acc @ [v]), r)
      | Parsed _ \<Rightarrow> Invalid
      | Invalid \<Rightarrow> Invalid
      | Unmodelled \<Rightarrow> Unmodelled)"
| "parse_members 0 acc ts = Unmodelled"
| "parse_members (Suc n) acc ts =
     (case ts of
        TStr k # TColon # r \<Rightarrow>
          (case parse_value n r of
             Parsed (v, TComma # r') \<Rightarrow> parse_members n (dict_set acc k v) r'
           | Parsed (v, TRBrace # r') \<Rightarrow> Parsed (JDict (dict_set acc k v), r')
           | Parsed _ \<Rightarrow> Invalid
           | Invalid \<Rightarrow> Invalid
           | Unmodelled \<Rightarrow> Unmodelled)
      | _ \<Rightarrow> Invalid)"

text \<open>
  The deepest nesting of brackets and braces in a list of tokens, counted from depth \<open>d\<close>.
  \<^verbatim>\<open>json.loads\<close> raises \<^verbatim>\<open>RecursionError\<close> on a document nested too deeply for the
  interpreter; the model leaves the documents nested deeper than 100 levels aside.
\<close>

fun nesting :: "int \<Rightarrow> token list \<Rightarrow> int" where
  "nesting d [] = d"
| "nesting d (t # ts) =
     (if t = TLBrace \<or> t = TLBrack then max (d + 1) (nesting (d + 1) ts)
      else if t = TRBrace \<or> t = TRBrack then nesting (d - 1) ts
      else nesting d ts)"

definition json_loads :: "string \<Rightarrow> json parse" where
  "json_loads s =
     (case lex (length s) s of
        Parsed ts \<Rightarrow>
          (case parse_value (2 * length ts + 2) ts of
             Parsed (v, []) \<Rightarrow> (if 100 < nesting 0 ts then Unmodelled else Parsed v)
           | Parsed (v, t # r) \<Rightarrow> Invalid
           | Invalid \<Rightarrow> Invalid
           | Unmodelled \<Rightarrow> Unmodelled)
      | Invalid \<Rightarrow> Invalid
      | Unmodelled \<Rightarrow> Unmodelled)"

subsection \<open>Structured text: the DataFrames pandas builds from parsed values\<close>

definition scalar_cell :: "json \<Rightarrow> cell option" where
  "scalar_cell v =
     (case v of
        JNull \<Rightarrow> Some CNone
      | JBool b \<Rightarrow> Some (CBool b)
      | JInt i \<Rightarrow> Some (CInt i)
      | JFloat r \<Rightarrow> Some (CFloat r)
      | JStr s \<Rightarrow> Some (CStr s)
      | JList xs \<Rightarrow> None
      | JDict d \<Rightarrow> None)"

text \<open>
  The type pandas infers for a column of Python objects, as far as it is modelled: a column
  with a string and without \<open>None\<close> keeps its objects, and so does a column of integers
  only, of booleans only, of \<open>None\<close> only or of \<open>nan\<close> only; a column of integers and
  missing values becomes \<open>float64\<close>, its integers printed with \<^verbatim>\<open>.0\<close> and its
  \<open>None\<close> turned into \<open>nan\<close>. The result is \<open>None\<close> for any other column.
\<close>

definition exact_as_float :: "cell \<Rightarrow> bool" where
  "exact_as_float v = (case v of CInt i \<Rightarrow> \<bar>i\<bar> < 1000000000000000 | _ \<Rightarrow> True)"

definition to_float :: "cell \<Rightarrow> cell" where
  "to_float v = (case v of CInt i \<Rightarrow> CFloat (show_int i @ ''.0'') | CNone \<Rightarrow> CNaN | _ \<Rightarrow> v)"

definition infer_column :: "cell list \<Rightarrow> cell list option" where
  "infer_column col =
     (if none_among_strings col then None
      else if list_ex is_str_cell col then Some col
      else if list_all is_int_cell col then Some col
      else if list_all is_bool_cell col then Some col
      else if list_all (\<lambda>v. v = CNone) col then Some col
      else if list_all (\<lambda>v. v = CNaN) col then Some col
      else if list_all (\<lambda>v. is_int_cell v \<or> v = CNone \<or> v = CNaN) col \<and>
              list_ex is_int_cell col \<and> list_all exact_as_float col
        then Some (map to_float col)
      else None)"

text \<open>A DataFrame of \<open>n\<close> rows from its labels and its columns of objects.\<close>

definition frame_of_columns :: "label list \<Rightarrow> cell list list \<Rightarrow> nat \<Rightarrow> dataframe option" where
  "frame_of_columns labels cols n =
     (case those (map infer_column cols) of
        None \<Rightarrow> None
      | Some cs \<Rightarrow> Some \<lparr>columns = labels, rows = map (\<lambda>i. map (\<lambda>c. c ! i) cs) [0..<n]\<rparr>)"

text \<open>
  \<^verbatim>\<open>pd.DataFrame(records)\<close> for a list of dicts of scalars: the columns are the keys in
  the order in which they are first seen, the cell of a key that a record lacks is \<open>nan\<close>.
\<close>

definition record_cell :: "(string \<times> cell) list \<Rightarrow> string \<Rightarrow> cell" where
  "record_cell r k = (case map_of r k of None \<Rightarrow> CNaN | Some v \<Rightarrow> v)"

definition DataFrame_records :: "(string \<times> cell) list list \<Rightarrow> dataframe option" where
  "DataFrame_records rs =
     (let keys = union_keys rs
      in frame_of_columns (map LStr keys) (map (\<lambda>k. map (\<lambda>r. record_cell r k) rs) keys)
           (length rs))"

text \<open>
  \<^verbatim>\<open>pd.json_normalize(data)\<close> for a list. The empty list gives the empty DataFrame
  without rows or columns. The model covers the lists of records whose values are scalars;
  a record with a nested record or a list, and an element that is not a record, are
  outside it.
\<close>

definition scalar_record :: "json \<Rightarrow> (string \<times> cell) list option" where
  "scalar_record v =
     (case v of
        JDict d \<Rightarrow> map_option (zip (map fst d)) (those (map (\<lambda>kv. scalar_cell (snd kv)) d))
      | _ \<Rightarrow> None)"

definition normalize_list :: "json list \<Rightarrow> pyerr + dataframe" where
  "normalize_list data =
     (if data = [] then Inr \<lparr>columns = [], rows = []\<rparr>
      else case those (map scalar_record data) of
             None \<Rightarrow> Inl OutsideModel
           | Some rs \<Rightarrow>
               (case DataFrame_records rs of None \<Rightarrow> Inl OutsideModel | Some df \<Rightarrow> Inr df))"

definition json_normalize :: "json \<Rightarrow> pyerr + dataframe" where
  "json_normalize data =
     (case data of
        JList xs \<Rightarrow> normalize_list xs
      | JDict d \<Rightarrow> normalize_list [JDict d]
      | _ \<Rightarrow> Inl OutsideModel)"

text \<open>
  \<^verbatim>\<open>pd.DataFrame(data)\<close> for a dict. The empty dict gives the empty DataFrame. A dict
  whose values are all scalars raises \<open>ValueError\<close> (no index), and so does a dict of
  lists of different lengths. A dict of lists of scalars of one length is read column by
  column. Other dicts (a nested record, a list among scalars, a list of lists) are outside
  the model.
\<close>

definition list_items :: "json \<Rightarrow> json list option" where
  "list_items v = (case v of JList xs \<Rightarrow> Some xs | _ \<Rightarrow> None)"

definition DataFrame_dict :: "(string \<times> json) list \<Rightarrow> pyerr + dataframe" where
  "DataFrame_dict d =
     (if d = [] then Inr \<lparr>columns = [], rows = []\<rparr>
      else if list_all (\<lambda>kv. scalar_cell (snd kv) \<noteq> None) d then Inl ValueError
      else case those (map (\<lambda>kv. list_items (snd kv)) d) of
             None \<Rightarrow> Inl OutsideModel
           | Some ls \<Rightarrow>
               (case those (map (\<lambda>xs. those (map scalar_cell xs)) ls) of
                  None \<Rightarrow> Inl OutsideModel
                | Some cols \<Rightarrow>
                    (if list_all (\<lambda>c. length c = length (hd cols)) cols
                     then (case frame_of_columns (map (\<lambda>kv. LStr (fst kv)) d) cols
                                  (length (hd cols)) of
                             None \<Rightarrow> Inl OutsideModel
                           | Some df \<Rightarrow> Inr df)
                     else Inl ValueError)))"

subsection \<open>Structured text: \<^verbatim>\<open>_read_json\<close>\<close>

text \<open>
  \<^verbatim>\<open>_read_json\<close> calls four library functions, which are parameters of its model:
  \<^item> \<open>json_loads_str\<close>, the call \<^verbatim>\<open>json.loads(raw.decode("utf-8"))\<close> of line 36, as a
    function of the bytes of the file;
  \<^item> \<open>json_loads_bytes\<close>, the call \<^verbatim>\<open>json.loads(line)\<close> of line 43, as a function of
    the bytes of the line;
  \<^item> \<open>pd_json_normalize\<close>, the calls \<^verbatim>\<open>pd.json_normalize(data)\<close> of lines 49 and 54;
  \<^item> \<open>pd_DataFrame\<close>, the call \<^verbatim>\<open>pd.DataFrame(data)\<close> of line 52 on a dict.
  The library itself returns a value or raises (\<open>Invalid\<close>, \<open>Inl\<close> of an exception);
  only the partial models above answer \<open>Unmodelled\<close> and \<open>Inl OutsideModel\<close>, which
  the decoder passes on.

  The lines of a file, each with its line feed, as the loop \<^verbatim>\<open>for line in file\<close> sees
  them:
\<close>

fun file_lines :: "string \<Rightarrow> string \<Rightarrow> string list" where
  "file_lines acc [] = (if acc = [] then [] else [rev acc])"
| "file_lines acc (c # cs) =
     (if c = CHR 0x0A then rev (c # acc) # file_lines [] cs else file_lines (c # acc) cs)"

text \<open>
  Lines 40 to 46: the values of the lines that parse; a line that does not is dropped.
  The result is \<open>None\<close> when a line is outside the model of \<^verbatim>\<open>json.loads\<close>.
\<close>

fun load_lines :: "(string \<Rightarrow> json parse) \<Rightarrow> string list \<Rightarrow> json list option" where
  "load_lines json_loads_bytes [] = Some []"
| "load_lines json_loads_bytes (l # ls) =
     (case json_loads_bytes l of
        Parsed v \<Rightarrow> map_option (\<lambda>vs. v # vs) (load_lines json_loads_bytes ls)
      | Invalid \<Rightarrow> load_lines json_loads_bytes ls
      | Unmodelled \<Rightarrow> None)"

text \<open>Lines 34 to 46: the value of \<^verbatim>\<open>data\<close>.\<close>

definition load_data ::
  "(string \<Rightarrow> json parse) \<Rightarrow> (string \<Rightarrow> json parse) \<Rightarrow> string \<Rightarrow> json option" where
  "load_data json_loads_str json_loads_bytes raw =
     (case json_loads_str raw of
        Parsed d \<Rightarrow> Some d
      | Invalid \<Rightarrow> map_option JList (load_lines json_loads_bytes (file_lines [] raw))
      | Unmodelled \<Rightarrow> None)"

text \<open>Lines 48 to 56: the DataFrame built from \<^verbatim>\<open>data\<close>.\<close>

definition value_frame :: "cell \<Rightarrow> dataframe" where
  "value_frame v = \<lparr>columns = [LStr ''value''], rows = [[CStr (py_str v)]]\<rparr>"

definition frame_of_data ::
  "(json \<Rightarrow> pyerr + dataframe) \<Rightarrow> ((string \<times> json) list \<Rightarrow> pyerr + dataframe) \<Rightarrow> json \<Rightarrow>
   pyerr + dataframe" where
  "frame_of_data pd_json_normalize pd_DataFrame data =
     (case data of
        JList xs \<Rightarrow> pd_json_normalize (JList xs)
      | JDict d \<Rightarrow>
          (case pd_DataFrame d of
             Inr df \<Rightarrow> Inr df
           | Inl OutsideModel \<Rightarrow> Inl OutsideModel
           | Inl e \<Rightarrow> pd_json_normalize (JDict d))
      | JNull \<Rightarrow> Inr (value_frame CNone)
      | JBool b \<Rightarrow> Inr (value_frame (CBool b))
      | JInt i \<Rightarrow> Inr (value_frame (CInt i))
      | JFloat r \<Rightarrow> Inr (value_frame (CFloat r))
      | JStr s \<Rightarrow> Inr (value_frame (CStr s)))"

text \<open>\<^verbatim>\<open>_read_json(file)\<close>, lines 33 to 57, for any behaviour of the four library calls.\<close>

definition read_json_with ::
  "(string \<Rightarrow> json parse) \<Rightarrow> (string \<Rightarrow> json parse) \<Rightarrow> (json \<Rightarrow> pyerr + dataframe) \<Rightarrow>
   ((string \<times> json) list \<Rightarrow> pyerr + dataframe) \<Rightarrow> string \<Rightarrow> pyerr + dataframe list" where
  "read_json_with json_loads_str json_loads_bytes pd_json_normalize pd_DataFrame raw =
     (case load_data json_loads_str json_loads_bytes raw of
        None \<Rightarrow> Inl OutsideModel
      | Some data \<Rightarrow>
          (case frame_of_data pd_json_normalize pd_DataFrame data of
             Inl e \<Rightarrow> Inl e
           | Inr df \<Rightarrow> Inr [df]))"

text \<open>
  \<^verbatim>\<open>_read_json(file)\<close> with the models of the library calls. The model of
  \<^verbatim>\<open>json.loads\<close> serves both calls on a file of ASCII characters other than NUL, where
  decoding the bytes changes nothing; on another file it says nothing.
\<close>

definition is_ascii :: "char \<Rightarrow> bool" where
  "is_ascii c = (let n = (of_char c :: nat) in 1 \<le> n \<and> n \<le> 127)"

definition json_loads_ascii :: "string \<Rightarrow> json parse" where
  "json_loads_ascii s = (if list_all is_ascii s then json_loads s else Unmodelled)"

definition read_json :: "string \<Rightarrow> pyerr + dataframe list" where
  "read_json raw = read_json_with json_loads_ascii json_loads_ascii json_normalize DataFrame_dict raw"

subsection \<open>Delimited text: \<^verbatim>\<open>pd.read_csv\<close> and \<^verbatim>\<open>_read_csv\<close>\<close>

text \<open>
  \<^verbatim>\<open>_read_csv\<close> calls \<^verbatim>\<open>pd.read_csv(file)\<close> with the default options: comma as the
  separator, the first line as the header, blank lines skipped, and the type of each column
  inferred from its fields. The model covers the files of fewer than 262144 characters (a
  longer file is read in chunks, each with an inference of its own) made of letters,
  digits, underscores, minus signs, commas and line feeds in which
  \<^item> every field of the header is a word: a letter or underscore followed by letters, digits
    and underscores, other than the words pandas reads as a missing value, a boolean or a
    float (\<^verbatim>\<open>NA\<close>, \<^verbatim>\<open>nan\<close>, \<^verbatim>\<open>null\<close>, \<^verbatim>\<open>None\<close>, \<^verbatim>\<open>inf\<close>,
    \<^verbatim>\<open>infinity\<close>, \<^verbatim>\<open>true\<close>, \<^verbatim>\<open>false\<close> in any capitalisation), and the words of
    the header are distinct;
  \<^item> every other line has as many fields as the header;
  \<^item> every field is empty, a word, or an integer literal: an optional minus sign and at
    most 18 digits.
  On any other file the result is \<open>Inl OutsideModel\<close>.
\<close>

fun split_on :: "char \<Rightarrow> string \<Rightarrow> string \<Rightarrow> string list" where
  "split_on d acc [] = [rev acc]"
| "split_on d acc (c # cs) =
     (if c = d then rev acc # split_on d [] cs else split_on d (c # acc) cs)"

text \<open>The records of a file: its lines that are not blank, each split at the commas.\<close>

definition csv_records :: "string \<Rightarrow> string list list" where
  "csv_records raw = map (split_on (CHR '','') []) (filter (\<lambda>l. l \<noteq> []) (split_on (CHR 0x0A) [] raw))"

definition is_letter :: "char \<Rightarrow> bool" where
  "is_letter c =
     (let n = (of_char c :: nat) in (65 \<le> n \<and> n \<le> 90) \<or> (97 \<le> n \<and> n \<le> 122) \<or> n = 95)"

definition csv_char :: "char \<Rightarrow> bool" where
  "csv_char c = (is_letter c \<or> is_digit c \<or> c = CHR ''-'' \<or> c = CHR '','' \<or> c = CHR 0x0A)"

definition is_int_literal :: "string \<Rightarrow> bool" where
  "is_int_literal f =
     (let ds = (if take 1 f = ''-'' then drop 1 f else f)
      in ds \<noteq> [] \<and> list_all is_digit ds \<and> length ds \<le> 18)"

definition int_of_literal :: "string \<Rightarrow> int" where
  "int_of_literal f =
     (if take 1 f = ''-'' then - int (nat_of_digits (drop 1 f)) else int (nat_of_digits f))"

definition reserved_words :: "string list" where
  "reserved_words =
     [''na'', ''nan'', ''null'', ''none'', ''inf'', ''infinity'', ''true'', ''false'']"

definition is_word :: "string \<Rightarrow> bool" where
  "is_word f =
     (f \<noteq> [] \<and> is_letter (hd f) \<and> list_all (\<lambda>c. is_letter c \<or> is_digit c) f \<and>
      lower f \<notin> set reserved_words)"

text \<open>
  The type inferred for a column from its fields: \<open>KObject\<close>, the fields kept as strings,
  when one of them is a word; \<open>KInt\<close> when all are integer literals; \<open>KFloat\<close> when they
  are integer literals and empty fields (or empty fields only), provided the integers have
  at most 15 digits, so that the float is the integer. An empty field is the missing value
  \<open>nan\<close>.
\<close>

datatype kind = KObject | KInt | KFloat

definition column_kind :: "string list \<Rightarrow> kind option" where
  "column_kind fs =
     (if \<not> list_all (\<lambda>f. f = [] \<or> is_int_literal f \<or> is_word f) fs then None
      else if list_ex is_word fs then Some KObject
      else if list_all is_int_literal fs then Some KInt
      else if list_all (\<lambda>f. f = [] \<or> \<bar>int_of_literal f\<bar> < 1000000000000000) fs then Some KFloat
      else None)"

definition convert :: "kind \<Rightarrow> string \<Rightarrow> cell" where
  "convert k f =
     (case k of
        KObject \<Rightarrow> (if f = [] then CNaN else CStr f)
      | KInt \<Rightarrow> CInt (int_of_literal f)
      | KFloat \<Rightarrow> (if f = [] then CNaN else CFloat (show_int (int_of_literal f) @ ''.0'')))"

definition pd_read_csv :: "string \<Rightarrow> pyerr + dataframe" where
  "pd_read_csv raw =
     (if \<not> list_all csv_char raw \<or> 262144 \<le> int (length raw) then Inl OutsideModel
      else case csv_records raw of
             [] \<Rightarrow> Inl ValueError
           | h # rs \<Rightarrow>
               (if \<not> (list_all is_word h \<and> distinct h) then Inl OutsideModel
                else if \<not> list_all (\<lambda>r. length r = length h) rs then Inl OutsideModel
                else case those (map (\<lambda>j. column_kind (column_at rs j)) [0..<length h]) of
                       None \<Rightarrow> Inl OutsideModel
                     | Some kinds \<Rightarrow>
                         Inr \<lparr>columns = map LStr h, rows = map (\<lambda>r. map2 convert kinds r) rs\<rparr>))"


text \<open>
  \<^verbatim>\<open>_read_csv(file)\<close>, lines 25 to 27, for any behaviour of the library call
  \<^verbatim>\<open>pd.read_csv(file)\<close>, which is its parameter:
  \<^verbatim>\<open>
      df = pd.read_csv(file)
      return [df]
  \<close>
\<close>

definition read_csv_with ::
  "(string \<Rightarrow> pyerr + dataframe) \<Rightarrow> string \<Rightarrow> pyerr + dataframe list" where
  "read_csv_with pd_read_csv_call file =
     (case pd_read_csv_call file of Inl e \<Rightarrow> Inl e | Inr df \<Rightarrow> Inr [df])"

text \<open>\<^verbatim>\<open>_read_csv(file)\<close> with the model of \<^verbatim>\<open>pd.read_csv\<close>.\<close>

definition read_csv :: "string \<Rightarrow> pyerr + dataframe list" where
  "read_csv file = read_csv_with pd_read_csv file"

section \<open>Properties of the encoders\<close>

lemma strip_all_space: "\<forall>c \<in> set s. isspace c \<Longrightarrow> strip s = []"
proof -
  assume a: "\<forall>c \<in> set s. isspace c"
  then have h: "dropWhile isspace s = []" by (induction s) auto
  show ?thesis unfolding strip_def h by simp
qed

text \<open>
  Claim C10. In the markup encoder a row key that is a string made only of whitespace
  characters gets the placeholder tag \<open>field\<close> when its child element is created, as the
  empty string and a key that is not a string do.
\<close>

theorem xml_whitespace_key_field:
  assumes "s \<noteq> []" and "\<forall>c \<in> set s. isspace c"
  shows "el_tag (xml_cell (LStr s, v)) = ''field''"
  using strip_all_space [OF assms(2)] by (simp add: xml_cell_def xml_tag_def)

theorem xml_whitespace_key_field_witness:
  "isspace (CHR '' '') \<and> isspace (CHR 0x09) \<and>
   el_tag (xml_cell (LStr [CHR '' '', CHR 0x09], CInt 7)) = ''field''"
proof -
  have h: "\<forall>c \<in> set [CHR '' '', CHR 0x09]. isspace c" by (simp add: isspace_def)
  have n: "[CHR '' '', CHR 0x09] \<noteq> []" by simp
  show ?thesis using h xml_whitespace_key_field [OF n h, of "CInt 7"] by simp
qed

lemma lower_tags:
  "lower ''CSV'' = ''csv''" "lower ''Excel (.xlsx)'' = ''excel (.xlsx)''"
  "lower ''JSON'' = ''json''" "lower ''XML'' = ''xml''"
  by code_simp+

lemma show_nat_digits:
  "show_nat 0 = ''0''" "show_nat 1 = ''1''" "show_nat 2 = ''2''" "show_nat 3 = ''3''"
  "show_nat (Suc 0) = ''1''" "show_nat (Suc (Suc 0)) = ''2''"
  by code_simp+

lemma startswith_excel_not_csv: "startswith s ''excel'' \<Longrightarrow> s \<noteq> ''csv''"
  by (auto simp: startswith_def)

lemma xlsx_sheets_nth:
  "map xlsx_sheet (List.enumerate 1 dfs) =
   map (\<lambda>i. (''Sheet'' @ show_nat (i + 1), dfs ! i)) [0..<length dfs]"
  by (rule nth_equalityI) (simp_all add: nth_enumerate_eq xlsx_sheet_def sheet_name_def)

text \<open>
  Claim C2. For a list of two or more DataFrames, the delimited-text encoder writes the first
  DataFrame only (its column labels as the header record, then its rows) and the result is
  the one it gives for the first DataFrame alone; the workbook encoder writes one sheet per
  DataFrame, in order, the sheet at position \<open>i\<close> (counted from zero) being named
  \<open>Sheet\<close> followed by the decimal numeral of \<open>i + 1\<close> and holding the DataFrame at
  position \<open>i\<close>.
\<close>

theorem csv_first_table_xlsx_sheet_per_table:
  assumes "2 \<le> length dfs"
    and "lower out_csv = ''csv''"
    and "startswith (lower out_xlsx) ''excel''"
  shows "df_to_bytes now dfs out_csv =
           Inr (CsvDoc (map str_label (columns (hd dfs)) # map (map csv_field) (rows (hd dfs))),
                ''text/csv'') \<and>
         df_to_bytes now dfs out_csv = df_to_bytes now [hd dfs] out_csv \<and>
         df_to_bytes now dfs out_xlsx =
           Inr (XlsxDoc now (map (\<lambda>i. (''Sheet'' @ show_nat (i + 1), dfs ! i)) [0..<length dfs]),
                ''application/vnd.openxmlformats-officedocument.spreadsheetml.sheet'')"
proof -
  from assms(1) obtain df rest where d: "dfs = df # rest" by (cases dfs) auto
  have c: "df_to_bytes now dfs out_csv = Inr (CsvDoc (to_csv (hd dfs)), ''text/csv'')"
    by (simp add: df_to_bytes_def assms(2) d)
  have c1: "df_to_bytes now [hd dfs] out_csv = Inr (CsvDoc (to_csv (hd dfs)), ''text/csv'')"
    by (simp add: df_to_bytes_def assms(2))
  have n: "lower out_xlsx \<noteq> ''csv''"
    using assms(3) by (rule startswith_excel_not_csv)
  have x: "df_to_bytes now dfs out_xlsx =
      Inr (XlsxDoc now (map xlsx_sheet (List.enumerate 1 dfs)),
           ''application/vnd.openxmlformats-officedocument.spreadsheetml.sheet'')"
    using n assms(3) by (simp add: df_to_bytes_def d del: enumerate_simps)
  show ?thesis
    unfolding c c1 x xlsx_sheets_nth to_csv_def by simp
qed

theorem csv_first_table_xlsx_sheet_per_table_witness:
  "df_to_bytes 9 [\<lparr>columns = [LStr ''a''], rows = [[CInt 1]]\<rparr>,
                  \<lparr>columns = [LStr ''b''], rows = [[CStr ''x''], [CNone]]\<rparr>] ''CSV'' =
     Inr (CsvDoc [[''a''], [''1'']], ''text/csv'') \<and>
   df_to_bytes 9 [\<lparr>columns = [LStr ''a''], rows = [[CInt 1]]\<rparr>,
                  \<lparr>columns = [LStr ''b''], rows = [[CStr ''x''], [CNone]]\<rparr>] ''Excel (.xlsx)'' =
     Inr (XlsxDoc 9 [(''Sheet1'', \<lparr>columns = [LStr ''a''], rows = [[CInt 1]]\<rparr>),
                     (''Sheet2'', \<lparr>columns = [LStr ''b''], rows = [[CStr ''x''], [CNone]]\<rparr>)],
          ''application/vnd.openxmlformats-officedocument.spreadsheetml.sheet'')"
proof -
  have l: "lower ''CSV'' = ''csv''"
    by (rule lower_tags)
  have e: "startswith (lower ''Excel (.xlsx)'') ''excel''"
    by (simp add: lower_tags startswith_def)
  have u: "[0..<2] = [0, Suc 0]"
    by (simp add: upt_rec)
  show ?thesis
    using csv_first_table_xlsx_sheet_per_table
      [of "[\<lparr>columns = [LStr ''a''], rows = [[CInt 1]]\<rparr>,
            \<lparr>columns = [LStr ''b''], rows = [[CStr ''x''], [CNone]]\<rparr>]"
          "''CSV''" "''Excel (.xlsx)''" 9, OF _ l e]
    by (simp add: u str_label_def csv_field_def show_int_def show_nat_digits)
qed

text \<open>
  Claim C4, evaluated at a DataFrame whose row holds the missing-value marker \<open>nan\<close> of
  pandas (the frame \<^verbatim>\<open>pd.read_csv\<close> returns for \<^verbatim>\<open>a,b\<close>, \<^verbatim>\<open>1,\<close>): the
  delimited-text encoder writes the missing value as the empty field, the markup encoder
  writes the text \<open>nan\<close>, since its test \<^verbatim>\<open>v is None\<close> does not hold of \<open>nan\<close>.
\<close>

theorem xml_nan_rendered_as_text:
  "df_to_bytes now [\<lparr>columns = [LStr ''a'', LStr ''b''], rows = [[CInt 1, CNaN]]\<rparr>] ''XML'' =
     Inr (XmlDoc (Element ''dataset'' [] None
            [Element ''sheet'' [(''name'', ''Sheet1'')] None
               [Element ''row'' [] None
                  [Element ''a'' [] (Some ''1'') [], Element ''b'' [] (Some ''nan'') []]]]),
          ''application/xml'') \<and>
   df_to_bytes now [\<lparr>columns = [LStr ''a'', LStr ''b''], rows = [[CInt 1, CNaN]]\<rparr>] ''CSV'' =
     Inr (CsvDoc [[''a'', ''b''], [''1'', '''']], ''text/csv'')"
  by (simp add: df_to_bytes_def lower_tags startswith_def
      xml_sheet_def sheet_name_def show_nat_digits to_dict_records_def
      dict_of_items_def xml_row_def xml_cell_def xml_tag_def strip_def isspace_def py_str_def
      show_int_def to_csv_def str_label_def csv_field_def ET_tostring_def qname_ok_def)

text \<open>
  The markup encoder fails on a column label that starts with an opening brace and has no
  closing one: the tree is built, and \<^verbatim>\<open>ET.tostring\<close> raises \<open>ValueError\<close>.
\<close>

lemma xml_brace_key_raises:
  "df_to_bytes now [\<lparr>columns = [LStr ''{x''], rows = [[CInt 1]]\<rparr>] ''XML'' = Inl ValueError"
  by (simp add: df_to_bytes_def lower_tags startswith_def
      xml_sheet_def sheet_name_def show_nat_digits to_dict_records_def
      dict_of_items_def xml_row_def xml_cell_def xml_tag_def strip_def isspace_def py_str_def
      show_int_def ET_tostring_def qname_ok_def)

section \<open>Properties of the decoders\<close>

subsection \<open>Dictionaries: the last value stored under a key is the one kept\<close>

lemma map_of_dict_set: "map_of (dict_set d k v) = (map_of d)(k \<mapsto> v)"
  by (induction d) (auto simp: fun_eq_iff)

lemma keys_dict_set: "fst ` set (dict_set d k v) = insert k (fst ` set d)"
proof (induction d)
  case Nil
  show ?case by simp
next
  case (Cons p d)
  show ?case
  proof (cases "fst p = k")
    case True
    then show ?thesis by (cases p) auto
  next
    case False
    then show ?thesis using Cons.IH by (cases p) auto
  qed
qed

lemma distinct_dict_set: "distinct (map fst d) \<Longrightarrow> distinct (map fst (dict_set d k v))"
  by (induction d) (auto simp: keys_dict_set)

lemma foldl_dict_set:
  "map_of (foldl (\<lambda>d kv. dict_set d (fst kv) (snd kv)) d kvs) = map_of d ++ map_of (rev kvs)"
  by (induction kvs arbitrary: d)
     (auto simp: map_of_dict_set fun_eq_iff map_add_def split: option.splits)

lemma foldl_dict_distinct:
  "distinct (map fst d) \<Longrightarrow>
   distinct (map fst (foldl (\<lambda>d kv. dict_set d (fst kv) (snd kv)) d kvs))"
  by (induction kvs arbitrary: d) (auto simp: distinct_dict_set)

lemma foldl_dict_keys:
  "set (map fst (foldl (\<lambda>d kv. dict_set d (fst kv) (snd kv)) d kvs)) =
   set (map fst d) \<union> set (map fst kvs)"
  by (induction kvs arbitrary: d) (auto simp: keys_dict_set)

lemma map_of_dict_of_items: "map_of (dict_of_items kvs) = map_of (rev kvs)"
  by (simp add: dict_of_items_def foldl_dict_set)

lemma distinct_dict_of_items: "distinct (map fst (dict_of_items kvs))"
  by (simp add: dict_of_items_def foldl_dict_distinct)

lemma keys_dict_of_items: "set (map fst (dict_of_items kvs)) = set (map fst kvs)"
  using foldl_dict_keys [of "[]" kvs] by (simp add: dict_of_items_def)

lemma map_of_rev_last:
  "filter (\<lambda>k. f k = t) ks \<noteq> [] \<Longrightarrow>
   map_of (rev (map (\<lambda>k. (f k, g k)) ks)) t = Some (g (last (filter (\<lambda>k. f k = t) ks)))"
  by (induction ks rule: rev_induct) auto

lemma filter_key_once:
  "distinct (map fst d) \<Longrightarrow> t \<in> set (map fst d) \<Longrightarrow>
   length (filter (\<lambda>kv. fst kv = t) d) = 1"
  by (induction d) (auto simp: filter_empty_conv image_iff)

lemma filter_eq_once:
  "distinct xs \<Longrightarrow> x \<in> set xs \<Longrightarrow> length (filter (\<lambda>c. c = x) xs) = 1"
  by (induction xs) (auto simp: filter_empty_conv)

lemma map_of_zip_map:
  "t \<in> set cols \<Longrightarrow> map_of (zip (map LStr cols) (map f cols)) (LStr t) = Some (f t)"
  by (induction cols) auto

subsection \<open>Markup\<close>

lemma leaf_row_value:
  assumes "filter (\<lambda>k. el_tag k = t) (el_children e) \<noteq> []"
  shows "map_of (leaf_row e) t =
         Some (strip (text_or_empty (last (filter (\<lambda>k. el_tag k = t) (el_children e)))))"
  unfolding leaf_row_def map_of_dict_of_items
  using map_of_rev_last [of el_tag t "el_children e" "\<lambda>k. strip (text_or_empty k)", OF assms]
  by simp

lemma leaf_row_key:
  assumes "filter (\<lambda>k. el_tag k = t) (el_children e) \<noteq> []"
  shows "t \<in> set (map fst (leaf_row e))"
proof -
  from assms obtain k where "k \<in> set (el_children e)" "el_tag k = t"
    by (auto simp: filter_empty_conv)
  then show ?thesis
    unfolding leaf_row_def keys_dict_of_items by force
qed

text \<open>
  Claim C9. Let \<open>e\<close> be the leaf-parent element at position \<open>i\<close> among the leaf-parent
  elements of the tree, in document order, and let two or more children of \<open>e\<close> have the
  tag \<open>t\<close>. Then the row built for \<open>e\<close> has exactly one entry for \<open>t\<close>, whose value is
  the trimmed text of the last child with that tag; the DataFrame of the fallback has
  exactly one column labelled \<open>t\<close>, its row at position \<open>i\<close> is the row built for \<open>e\<close>
  read along the columns, and the cell of that row in column \<open>t\<close> is that same text. The
  texts of the earlier children with tag \<open>t\<close> appear nowhere in the row.
\<close>

theorem leaf_parent_same_tag_last_wins:
  assumes "i < length (filter is_leaf_parent (iter root))"
    and "e = filter is_leaf_parent (iter root) ! i"
    and "2 \<le> length (filter (\<lambda>k. el_tag k = t) (el_children e))"
  shows "length (filter (\<lambda>kv. fst kv = t) (leaf_row e)) = 1 \<and>
         map_of (leaf_row e) t =
           Some (strip (text_or_empty (last (filter (\<lambda>k. el_tag k = t) (el_children e))))) \<and>
         length (filter (\<lambda>c. c = LStr t) (columns (xml_fallback root))) = 1 \<and>
         rows (xml_fallback root) ! i =
           map (str_cell (leaf_row e)) (map str_label (columns (xml_fallback root))) \<and>
         map_of (zip (columns (xml_fallback root)) (rows (xml_fallback root) ! i)) (LStr t) =
           Some (CStr (strip (text_or_empty
             (last (filter (\<lambda>k. el_tag k = t) (el_children e))))))"
proof -
  let ?lp = "filter is_leaf_parent (iter root)"
  let ?cols = "sort (remdups (concat (map (map fst) (map leaf_row ?lp))))"
  have ne: "filter (\<lambda>k. el_tag k = t) (el_children e) \<noteq> []"
    using assms(3) by auto
  have v: "map_of (leaf_row e) t =
      Some (strip (text_or_empty (last (filter (\<lambda>k. el_tag k = t) (el_children e)))))"
    by (rule leaf_row_value [OF ne])
  have k: "t \<in> set (map fst (leaf_row e))"
    by (rule leaf_row_key [OF ne])
  have once: "length (filter (\<lambda>kv. fst kv = t) (leaf_row e)) = 1"
    using distinct_dict_of_items k unfolding leaf_row_def by (rule filter_key_once)
  have lp: "?lp \<noteq> []" using assms(1) by auto
  have df: "xml_fallback root = DataFrame_dicts (map leaf_row ?lp) ?cols"
    using lp by (simp add: xml_fallback_def Let_def)
  have e_in: "e \<in> set ?lp" using assms(1,2) nth_mem by blast
  have t_in: "t \<in> set ?cols" using k e_in by auto
  have c1: "length (filter (\<lambda>c. c = LStr t) (map LStr ?cols)) = 1"
    by (rule filter_eq_once) (use t_in in \<open>auto simp: distinct_map inj_on_def\<close>)
  have r: "rows (xml_fallback root) ! i = map (str_cell (leaf_row e)) ?cols"
    using assms(1,2) by (simp add: df DataFrame_dicts_def)
  have sl: "map str_label (map LStr ?cols) = ?cols"
    by (simp add: str_label_def comp_def)
  have z: "map_of (zip (map LStr ?cols) (map (str_cell (leaf_row e)) ?cols)) (LStr t) =
      Some (str_cell (leaf_row e) t)"
    by (rule map_of_zip_map [OF t_in])
  have cols: "columns (xml_fallback root) = map LStr ?cols"
    by (simp add: df DataFrame_dicts_def)
  show ?thesis
    unfolding cols r sl using once v c1 z by (simp add: str_cell_def)
qed

lemma xml_example_leaf_parents:
  "filter is_leaf_parent (iter (Element ''r'' [] None
     [Element ''item'' [] None
        [Element ''a'' [] (Some '' x '') [], Element ''a'' [] (Some [CHR ''y'', CHR 0x0A]) [],
         Element ''b'' [] None []]])) =
   [Element ''item'' [] None
      [Element ''a'' [] (Some '' x '') [], Element ''a'' [] (Some [CHR ''y'', CHR 0x0A]) [],
       Element ''b'' [] None []]]"
  by code_simp

lemma xml_example_frame:
  "xml_fallback (Element ''r'' [] None
     [Element ''item'' [] None
        [Element ''a'' [] (Some '' x '') [], Element ''a'' [] (Some [CHR ''y'', CHR 0x0A]) [],
         Element ''b'' [] None []]]) =
   \<lparr>columns = [LStr ''a'', LStr ''b''], rows = [[CStr ''y'', CStr '''']]\<rparr>"
  by code_simp

lemma xml_example_row:
  "leaf_row (Element ''item'' [] None
      [Element ''a'' [] (Some '' x '') [], Element ''a'' [] (Some [CHR ''y'', CHR 0x0A]) [],
       Element ''b'' [] None []]) = [(''a'', ''y''), (''b'', '''')]"
  by code_simp

theorem leaf_parent_same_tag_last_wins_witness:
  "leaf_row (Element ''item'' [] None
      [Element ''a'' [] (Some '' x '') [], Element ''a'' [] (Some [CHR ''y'', CHR 0x0A]) [],
       Element ''b'' [] None []]) = [(''a'', ''y''), (''b'', '''')] \<and>
   xml_fallback (Element ''r'' [] None
     [Element ''item'' [] None
        [Element ''a'' [] (Some '' x '') [], Element ''a'' [] (Some [CHR ''y'', CHR 0x0A]) [],
         Element ''b'' [] None []]]) =
     \<lparr>columns = [LStr ''a'', LStr ''b''], rows = [[CStr ''y'', CStr '''']]\<rparr> \<and>
   map_of (zip [LStr ''a'', LStr ''b''] [CStr ''y'', CStr '''']) (LStr ''a'') = Some (CStr ''y'')"
proof -
  let ?item = "Element ''item'' [] None
      [Element ''a'' [] (Some '' x '') [], Element ''a'' [] (Some [CHR ''y'', CHR 0x0A]) [],
       Element ''b'' [] None []]"
  let ?root = "Element ''r'' [] None [?item]"
  have h1: "0 < length (filter is_leaf_parent (iter ?root))"
    unfolding xml_example_leaf_parents by simp
  have h2: "?item = filter is_leaf_parent (iter ?root) ! 0"
    unfolding xml_example_leaf_parents by simp
  have h3: "2 \<le> length (filter (\<lambda>k. el_tag k = ''a'') (el_children ?item))"
    by simp
  show ?thesis
    using leaf_parent_same_tag_last_wins [OF h1 h2 h3]
    by (simp add: xml_example_frame xml_example_row)
qed

subsection \<open>Page-layout documents\<close>

lemma collect_frames_no_grid: "\<forall>t \<in> set ts. t = [] \<Longrightarrow> collect_frames ts = Inr []"
  by (induction ts) (auto simp: grid_frame_def)

text \<open>
  Claim C6 as stated fails: for a document of two pages without any grid the decoder
  returns one DataFrame with one row per page, not one DataFrame per page.
\<close>

theorem pdf_text_fallback_not_per_page:
  "read_pdf True
     (\<lambda>f. Inr [\<lparr>extract_tables = [], extract_text = Some ''one''\<rparr>,
               \<lparr>extract_tables = [], extract_text = None\<rparr>]) ''%PDF'' =
     Inr [\<lparr>columns = [LStr ''text''], rows = [[CStr ''one''], [CStr '''']]\<rparr>] \<and>
   read_pdf True
     (\<lambda>f. Inr [\<lparr>extract_tables = [], extract_text = Some ''one''\<rparr>,
               \<lparr>extract_tables = [], extract_text = None\<rparr>]) ''%PDF'' \<noteq>
     Inr [\<lparr>columns = [LStr ''text''], rows = [[CStr ''one'']]\<rparr>,
          \<lparr>columns = [LStr ''text''], rows = [[CStr '''']]\<rparr>]"
  by (simp add: read_pdf_def page_text_def)

text \<open>
  Claim C6, amended. When pdfplumber is available and opens the document, and no grid, or
  only empty grids, are extracted from the first five pages, the decoder returns exactly
  one DataFrame with the single column \<open>text\<close> and one row for each of the first three
  pages, in order, whose cell is the text extracted from the page, or the empty string when
  the extraction yields none.
\<close>

theorem pdf_text_fallback_single_table:
  assumes "pdfplumber_open file = Inr pages"
    and "\<forall>p \<in> set (take 5 pages). \<forall>t \<in> set (extract_tables p). t = []"
  shows "read_pdf True pdfplumber_open file =
         Inr [\<lparr>columns = [LStr ''text''],
               rows = map (\<lambda>p. [CStr (case extract_text p of None \<Rightarrow> '''' | Some s \<Rightarrow> s)])
                        (take 3 pages)\<rparr>]"
proof -
  have "\<forall>t \<in> set (concat (map extract_tables (take 5 pages))). t = []"
    using assms(2) by auto
  then have "collect_frames (concat (map extract_tables (take 5 pages))) = Inr []"
    by (rule collect_frames_no_grid)
  then show ?thesis
    by (simp add: read_pdf_def assms(1) page_text_def)
qed

theorem pdf_text_fallback_single_table_witness:
  "read_pdf True
     (\<lambda>f. Inr [\<lparr>extract_tables = [], extract_text = Some ''1''\<rparr>,
               \<lparr>extract_tables = [[]], extract_text = None\<rparr>,
               \<lparr>extract_tables = [], extract_text = Some ''3''\<rparr>,
               \<lparr>extract_tables = [], extract_text = Some ''4''\<rparr>]) ''%PDF'' =
     Inr [\<lparr>columns = [LStr ''text''], rows = [[CStr ''1''], [CStr ''''], [CStr ''3'']]\<rparr>]"
proof -
  let ?pages = "[\<lparr>extract_tables = [], extract_text = Some ''1''\<rparr>,
               \<lparr>extract_tables = [[]], extract_text = None\<rparr>,
               \<lparr>extract_tables = [], extract_text = Some ''3''\<rparr>,
               \<lparr>extract_tables = [], extract_text = Some ''4''\<rparr>]"
  have h2: "\<forall>p \<in> set (take 5 ?pages). \<forall>t \<in> set (extract_tables p). t = []"
    by simp
  show ?thesis
    using pdf_text_fallback_single_table
      [of "\<lambda>f. Inr ?pages" "''%PDF''" ?pages, OF _ h2]
    by simp
qed

subsection \<open>Structured text\<close>

lemma frame_of_scalar:
  "scalar_cell d = Some v \<Longrightarrow> frame_of_data nz fr d = Inr (value_frame v)"
  by (cases d) (auto simp: scalar_cell_def frame_of_data_def)

lemma load_lines_all_invalid:
  "list_all (\<lambda>l. lb l = Invalid) ls \<Longrightarrow> load_lines lb ls = Some []"
  by (induction ls) auto

lemma load_lines_total:
  "\<forall>s. lb s \<noteq> Unmodelled \<Longrightarrow> \<exists>vs. load_lines lb ls = Some vs"
proof (induction ls)
  case Nil
  show ?case by simp
next
  case (Cons l ls)
  then obtain vs where "load_lines lb ls = Some vs" by blast
  with Cons.prems show ?case
    by (cases "lb l") auto
qed

lemma load_data_total:
  assumes "\<forall>s. ls s \<noteq> Unmodelled" and "\<forall>s. lb s \<noteq> Unmodelled"
  shows "\<exists>data. load_data ls lb raw = Some data"
proof (cases "ls raw")
  case (Parsed d)
  then show ?thesis by (simp add: load_data_def)
next
  case Invalid
  from load_lines_total [OF assms(2)] obtain vs where
    "load_lines lb (file_lines [] raw) = Some vs" by blast
  with Invalid show ?thesis by (simp add: load_data_def)
next
  case Unmodelled
  with assms(1) show ?thesis by simp
qed

lemma frame_of_data_total:
  assumes "\<forall>x. fr x \<noteq> Inl OutsideModel"
  shows "(\<exists>df. frame_of_data nz fr data = Inr df) \<or>
         (\<exists>e x. nz x = Inl e \<and> frame_of_data nz fr data = Inl e)"
proof (cases data)
  case (JList xs)
  then show ?thesis
    by (cases "nz (JList xs)") (auto simp: frame_of_data_def)
next
  case (JDict d)
  show ?thesis
  proof (cases "fr d")
    case (Inr df)
    with JDict show ?thesis by (simp add: frame_of_data_def)
  next
    case (Inl e)
    with assms have "e \<noteq> OutsideModel" by metis
    with Inl JDict have "frame_of_data nz fr data = nz (JDict d)"
      by (cases e) (simp_all add: frame_of_data_def)
    then show ?thesis
      by (cases "nz (JDict d)") auto
  qed
qed (simp_all add: frame_of_data_def)

text \<open>
  Claim C1 as stated fails: for the empty file, and for a file that is not JSON in any of
  its lines, no strategy yields a row, and the decoder returns a DataFrame without rows and
  without columns, not a DataFrame of one row and one column.
\<close>

theorem read_json_unparseable_no_rows:
  "read_json '''' = Inr [\<lparr>columns = [], rows = []\<rparr>] \<and>
   read_json ''not json'' = Inr [\<lparr>columns = [], rows = []\<rparr>]"
  by code_simp

text \<open>
  Claim C1, amended. For every input byte stream and every behaviour of the library calls:
  whenever the decoder returns, it returns exactly one DataFrame. When the document parses
  as a whole to a scalar (a value that is neither a sequence nor a record), that DataFrame
  has exactly one row and the one column \<open>value\<close>, holding the text \<^verbatim>\<open>str\<close> gives for
  the scalar. When the document does not parse as a whole and none of its lines parses, as
  for the empty file, the DataFrame is the one \<^verbatim>\<open>pd.json_normalize\<close> gives for the empty
  list, which has no row and no column. And with library calls that return or raise, the
  decoder either returns one DataFrame or raises what \<^verbatim>\<open>pd.json_normalize\<close> raised:
  it has no other outcome.
\<close>

theorem read_json_one_table:
  "(read_json_with ls lb nz fr raw = Inr dfs \<longrightarrow> length dfs = 1) \<and>
   (ls raw = Parsed d \<and> scalar_cell d = Some v \<longrightarrow>
      read_json_with ls lb nz fr raw =
        Inr [\<lparr>columns = [LStr ''value''], rows = [[CStr (py_str v)]]\<rparr>]) \<and>
   (ls raw = Invalid \<and> list_all (\<lambda>l. lb l = Invalid) (file_lines [] raw) \<and>
    nz (JList []) = Inr \<lparr>columns = [], rows = []\<rparr> \<longrightarrow>
      read_json_with ls lb nz fr raw = Inr [\<lparr>columns = [], rows = []\<rparr>]) \<and>
   ((\<forall>s. ls s \<noteq> Unmodelled) \<and> (\<forall>s. lb s \<noteq> Unmodelled) \<and> (\<forall>x. fr x \<noteq> Inl OutsideModel) \<longrightarrow>
      (\<exists>df. read_json_with ls lb nz fr raw = Inr [df]) \<or>
      (\<exists>e x. nz x = Inl e \<and> read_json_with ls lb nz fr raw = Inl e))"
proof (intro conjI impI)
  assume "read_json_with ls lb nz fr raw = Inr dfs"
  then show "length dfs = 1"
    by (auto simp: read_json_with_def split: option.splits sum.splits)
next
  assume a: "ls raw = Parsed d \<and> scalar_cell d = Some v"
  then have "load_data ls lb raw = Some d" by (simp add: load_data_def)
  moreover have "frame_of_data nz fr d = Inr (value_frame v)"
    using a by (simp add: frame_of_scalar)
  ultimately show "read_json_with ls lb nz fr raw =
      Inr [\<lparr>columns = [LStr ''value''], rows = [[CStr (py_str v)]]\<rparr>]"
    by (simp add: read_json_with_def value_frame_def)
next
  assume a: "ls raw = Invalid \<and> list_all (\<lambda>l. lb l = Invalid) (file_lines [] raw) \<and>
    nz (JList []) = Inr \<lparr>columns = [], rows = []\<rparr>"
  then have "load_lines lb (file_lines [] raw) = Some []"
    by (simp add: load_lines_all_invalid)
  with a have "load_data ls lb raw = Some (JList [])" by (simp add: load_data_def)
  then show "read_json_with ls lb nz fr raw = Inr [\<lparr>columns = [], rows = []\<rparr>]"
    using a by (simp add: read_json_with_def frame_of_data_def)
next
  assume a: "(\<forall>s. ls s \<noteq> Unmodelled) \<and> (\<forall>s. lb s \<noteq> Unmodelled) \<and>
    (\<forall>x. fr x \<noteq> Inl OutsideModel)"
  then obtain data where d: "load_data ls lb raw = Some data"
    using load_data_total [of ls lb raw] by blast
  from a have "(\<exists>df. frame_of_data nz fr data = Inr df) \<or>
      (\<exists>e x. nz x = Inl e \<and> frame_of_data nz fr data = Inl e)"
    using frame_of_data_total [of fr nz data] by blast
  then show "(\<exists>df. read_json_with ls lb nz fr raw = Inr [df]) \<or>
      (\<exists>e x. nz x = Inl e \<and> read_json_with ls lb nz fr raw = Inl e)"
    using d by (auto simp: read_json_with_def)
qed

lemma json_example_scalar:
  "json_loads_ascii ''42'' = Parsed (JInt 42) \<and> scalar_cell (JInt 42) = Some (CInt 42)"
  by code_simp

lemma json_example_empty:
  "json_loads_ascii [] = Invalid \<and>
   list_all (\<lambda>l. json_loads_ascii l = Invalid) (file_lines [] []) \<and>
   json_normalize (JList []) = Inr \<lparr>columns = [], rows = []\<rparr>"
  by code_simp

theorem read_json_one_table_witness:
  "read_json ''42'' = Inr [\<lparr>columns = [LStr ''value''], rows = [[CStr ''42'']]\<rparr>] \<and>
   length [\<lparr>columns = [LStr ''value''], rows = [[CStr ''42'']]\<rparr>] = 1 \<and>
   read_json [] = Inr [\<lparr>columns = [], rows = []\<rparr>] \<and>
   read_json_with (\<lambda>s. Parsed (JFloat ''1.5'')) (\<lambda>s. Invalid)
     (\<lambda>x. Inr \<lparr>columns = [], rows = []\<rparr>) (\<lambda>d. Inl ValueError) ''1.5'' =
     Inr [\<lparr>columns = [LStr ''value''], rows = [[CStr ''1.5'']]\<rparr>] \<and>
   read_json_with (\<lambda>s. Invalid) (\<lambda>s. Invalid)
     (\<lambda>x. Inr \<lparr>columns = [], rows = []\<rparr>) (\<lambda>d. Inl ValueError) [CHR 0xFF, CHR 0xFE] =
     Inr [\<lparr>columns = [], rows = []\<rparr>]"
proof -
  have s: "py_str (CInt 42) = ''42''"
    by code_simp
  have s2: "py_str (CFloat ''1.5'') = ''1.5''"
    by (simp add: py_str_def)
  have r1: "read_json ''42'' =
      Inr [\<lparr>columns = [LStr ''value''], rows = [[CStr (py_str (CInt 42))]]\<rparr>]"
    unfolding read_json_def
    using read_json_one_table
      [of json_loads_ascii json_loads_ascii json_normalize DataFrame_dict "''42''" "[]"
          "JInt 42" "CInt 42"]
      json_example_scalar
    by blast
  have r2: "read_json [] = Inr [\<lparr>columns = [], rows = []\<rparr>]"
    unfolding read_json_def
    using read_json_one_table
      [of json_loads_ascii json_loads_ascii json_normalize DataFrame_dict "[]" "[]" JNull CNone]
      json_example_empty
    by blast
  have r3: "read_json_with (\<lambda>s. Parsed (JFloat ''1.5'')) (\<lambda>s. Invalid)
      (\<lambda>x. Inr \<lparr>columns = [], rows = []\<rparr>) (\<lambda>d. Inl ValueError) ''1.5'' =
      Inr [\<lparr>columns = [LStr ''value''], rows = [[CStr (py_str (CFloat ''1.5''))]]\<rparr>]"
    using read_json_one_table
      [of "\<lambda>s. Parsed (JFloat ''1.5'')" "\<lambda>s. Invalid"
          "\<lambda>x. Inr \<lparr>columns = [], rows = []\<rparr>" "\<lambda>d. Inl ValueError" "''1.5''" "[]"
          "JFloat ''1.5''" "CFloat ''1.5''"]
    by (simp add: scalar_cell_def)
  have r4: "read_json_with (\<lambda>s. Invalid) (\<lambda>s. Invalid)
      (\<lambda>x. Inr \<lparr>columns = [], rows = []\<rparr>) (\<lambda>d. Inl ValueError) [CHR 0xFF, CHR 0xFE] =
      Inr [\<lparr>columns = [], rows = []\<rparr>]"
    using read_json_one_table
      [of "\<lambda>s. Invalid" "\<lambda>s. Invalid"
          "\<lambda>x. Inr \<lparr>columns = [], rows = []\<rparr>" "\<lambda>d. Inl ValueError"
          "[CHR 0xFF, CHR 0xFE]" "[]" JNull CNone]
    by (simp add: list_all_iff)
  show ?thesis
    using r1 r2 r3 r4 by (simp add: s s2)
qed

text \<open>
  Claim C7. The document \<^verbatim>\<open>[{"a":1},{"a":2}]\<close> parses to a sequence of two records and
  \<^verbatim>\<open>pd.json_normalize\<close> gives one DataFrame of two rows whose column \<open>a\<close> holds 1 and
  2. The document \<^verbatim>\<open>{"a":[1,2],"b":[3,4]}\<close> parses to a record of two sequences of
  length 2, from which \<^verbatim>\<open>pd.DataFrame\<close> builds, without raising, one DataFrame of two
  rows with the columns \<open>a\<close> and \<open>b\<close>.
\<close>

theorem read_json_records_and_arrays:
  \<open>json_loads ''[{"a":1},{"a":2}]'' =
     Parsed (JList [JDict [(''a'', JInt 1)], JDict [(''a'', JInt 2)]]) \<and>
   read_json ''[{"a":1},{"a":2}]'' =
     Inr [\<lparr>columns = [LStr ''a''], rows = [[CInt 1], [CInt 2]]\<rparr>] \<and>
   json_loads ''{"a":[1,2],"b":[3,4]}'' =
     Parsed (JDict [(''a'', JList [JInt 1, JInt 2]), (''b'', JList [JInt 3, JInt 4])]) \<and>
   DataFrame_dict [(''a'', JList [JInt 1, JInt 2]), (''b'', JList [JInt 3, JInt 4])] =
     Inr \<lparr>columns = [LStr ''a'', LStr ''b''], rows = [[CInt 1, CInt 3], [CInt 2, CInt 4]]\<rparr> \<and>
   read_json ''{"a":[1,2],"b":[3,4]}'' =
     Inr [\<lparr>columns = [LStr ''a'', LStr ''b''], rows = [[CInt 1, CInt 3], [CInt 2, CInt 4]]\<rparr>]\<close>
  by code_simp

subsection \<open>Delimited text\<close>



lemma int_literal_not_word: "is_int_literal f \<Longrightarrow> \<not> is_word f"
  by (cases f)
     (auto simp: is_int_literal_def is_word_def is_letter_def is_digit_def Let_def
           split: if_splits)






lemma csv_example_frame:
  "read_csv (''n,s,f'' @ [CHR 0x0A] @ ''007,ab,1'' @ [CHR 0x0A] @ ''-5,12,'' @ [CHR 0x0A]) =
     Inr [\<lparr>columns = [LStr ''n'', LStr ''s'', LStr ''f''],
           rows = [[CInt 7, CStr ''ab'', CFloat ''1.0''], [CInt (- 5), CStr ''12'', CNaN]]\<rparr>]"
  by code_simp









end
